theory Spec2Isabelle
  imports Complex_Main
begin

section \<open>Data model (types.ts, constants.ts)\<close>

text \<open>
  JavaScript numbers are modelled as \<^typ>\<open>real\<close>, and NaN and the infinities are not
  represented. The arithmetic of the drag and of the compositor is read as exact
  arithmetic. The arithmetic of the canvas sizing is rounded to doubles, operation by
  operation, because its results are cut to integers, where a rounding shows.
  A value that may be \<^verbatim>\<open>null\<close> or \<^verbatim>\<open>undefined\<close> is an \<^typ>\<open>'a option\<close>.
  The fields of the source's interfaces keep their names behind a prefix
  (\<^verbatim>\<open>photo.x\<close> is \<open>photo_x\<close>), since a record field is a global constant.
\<close>

record PhotoState =
  photo_src :: "string option"
  photo_x :: real
  photo_y :: real
  photo_scale :: real
  photo_rotation :: real

record FrameState =
  frame_src :: "string option"
  frame_width :: "real option"
  frame_height :: "real option"

definition INITIAL_PHOTO_STATE :: PhotoState where
  "INITIAL_PHOTO_STATE =
     \<lparr>photo_src = None, photo_x = 0, photo_y = 0, photo_scale = 1, photo_rotation = 0\<rparr>"


text \<open>JavaScript truthiness of an optional string and of an optional number.\<close>

definition truthy_str :: "string option \<Rightarrow> bool" where
  "truthy_str v = (case v of None \<Rightarrow> False | Some t \<Rightarrow> t \<noteq> [])"

definition truthy_num :: "real option \<Rightarrow> bool" where
  "truthy_num v = (case v of None \<Rightarrow> False | Some n \<Rightarrow> n \<noteq> 0)"

section \<open>The 2D drawing context\<close>

text \<open>
  An \<^verbatim>\<open>HTMLImageElement\<close> as the code uses it: the source it was given and the
  decoded size (\<^verbatim>\<open>img.width\<close>, \<^verbatim>\<open>img.height\<close>).
\<close>

record Image =
  img_src :: string
  img_width :: real
  img_height :: real

text \<open>
  The current transformation matrix of a canvas context is the affine map
  \<open>(u, v) \<mapsto> (a u + c v + e, b u + d v + f)\<close>. The context's \<^verbatim>\<open>translate\<close>,
  \<^verbatim>\<open>rotate\<close> and \<^verbatim>\<open>scale\<close> multiply the current matrix on the right, so the
  transformation called last is the first applied to a point that is drawn.
\<close>

record Matrix =
  m_a :: real
  m_b :: real
  m_c :: real
  m_d :: real
  m_e :: real
  m_f :: real

definition mat_id :: Matrix where
  "mat_id = \<lparr>m_a = 1, m_b = 0, m_c = 0, m_d = 1, m_e = 0, m_f = 0\<rparr>"

definition mat_mul :: "Matrix \<Rightarrow> Matrix \<Rightarrow> Matrix" where
  "mat_mul M N =
     \<lparr>m_a = m_a M * m_a N + m_c M * m_b N,
      m_b = m_b M * m_a N + m_d M * m_b N,
      m_c = m_a M * m_c N + m_c M * m_d N,
      m_d = m_b M * m_c N + m_d M * m_d N,
      m_e = m_a M * m_e N + m_c M * m_f N + m_e M,
      m_f = m_b M * m_e N + m_d M * m_f N + m_f M\<rparr>"

definition mat_apply :: "Matrix \<Rightarrow> real \<times> real \<Rightarrow> real \<times> real" where
  "mat_apply M p =
     (m_a M * fst p + m_c M * snd p + m_e M, m_b M * fst p + m_d M * snd p + m_f M)"

definition mat_translate :: "real \<Rightarrow> real \<Rightarrow> Matrix" where
  "mat_translate tx ty = \<lparr>m_a = 1, m_b = 0, m_c = 0, m_d = 1, m_e = tx, m_f = ty\<rparr>"

definition mat_rotate :: "real \<Rightarrow> Matrix" where
  "mat_rotate t = \<lparr>m_a = cos t, m_b = sin t, m_c = - sin t, m_d = cos t, m_e = 0, m_f = 0\<rparr>"

definition mat_scale :: "real \<Rightarrow> real \<Rightarrow> Matrix" where
  "mat_scale sx sy = \<lparr>m_a = sx, m_b = 0, m_c = 0, m_d = sy, m_e = 0, m_f = 0\<rparr>"

text \<open>
  What a drawing call leaves on the surface, in the order of the calls: the rectangle
  (or the image in its destination rectangle \<open>x y w h\<close>) and the matrix in force.
\<close>

datatype Paint =
    Cleared Matrix real real real real
  | Filled string Matrix real real real real
  | Drawn Image Matrix real real real real

record Ctx =
  ctm :: Matrix
  fillStyle :: string
  saved :: "(Matrix \<times> string) list"
  painted :: "Paint list"

definition ctx_save :: "Ctx \<Rightarrow> Ctx" where
  "ctx_save c = c\<lparr>saved := (ctm c, fillStyle c) # saved c\<rparr>"

definition ctx_restore :: "Ctx \<Rightarrow> Ctx" where
  "ctx_restore c =
     (case saved c of
        [] \<Rightarrow> c
      | st # rest \<Rightarrow> c\<lparr>ctm := fst st, fillStyle := snd st, saved := rest\<rparr>)"

definition ctx_translate :: "real \<Rightarrow> real \<Rightarrow> Ctx \<Rightarrow> Ctx" where
  "ctx_translate tx ty c = c\<lparr>ctm := mat_mul (ctm c) (mat_translate tx ty)\<rparr>"

definition ctx_rotate :: "real \<Rightarrow> Ctx \<Rightarrow> Ctx" where
  "ctx_rotate t c = c\<lparr>ctm := mat_mul (ctm c) (mat_rotate t)\<rparr>"

definition ctx_scale :: "real \<Rightarrow> real \<Rightarrow> Ctx \<Rightarrow> Ctx" where
  "ctx_scale sx sy c = c\<lparr>ctm := mat_mul (ctm c) (mat_scale sx sy)\<rparr>"

definition ctx_clearRect :: "real \<Rightarrow> real \<Rightarrow> real \<Rightarrow> real \<Rightarrow> Ctx \<Rightarrow> Ctx" where
  "ctx_clearRect x y w h c = c\<lparr>painted := painted c @ [Cleared (ctm c) x y w h]\<rparr>"

definition ctx_fillRect :: "real \<Rightarrow> real \<Rightarrow> real \<Rightarrow> real \<Rightarrow> Ctx \<Rightarrow> Ctx" where
  "ctx_fillRect x y w h c = c\<lparr>painted := painted c @ [Filled (fillStyle c) (ctm c) x y w h]\<rparr>"

text \<open>\<^verbatim>\<open>drawImage(img, dx, dy)\<close> draws at the image's own size; the five-argument form
  stretches it to \<open>dw\<close> by \<open>dh\<close>.\<close>

definition ctx_drawImage3 :: "Image \<Rightarrow> real \<Rightarrow> real \<Rightarrow> Ctx \<Rightarrow> Ctx" where
  "ctx_drawImage3 img dx dy c =
     c\<lparr>painted := painted c @ [Drawn img (ctm c) dx dy (img_width img) (img_height img)]\<rparr>"

definition ctx_drawImage5 :: "Image \<Rightarrow> real \<Rightarrow> real \<Rightarrow> real \<Rightarrow> real \<Rightarrow> Ctx \<Rightarrow> Ctx" where
  "ctx_drawImage5 img dx dy dw dh c = c\<lparr>painted := painted c @ [Drawn img (ctm c) dx dy dw dh]\<rparr>"

section \<open>State of the application (App.tsx, CanvasEditor.tsx)\<close>

text \<open>
  The canvas element: its pixel size, the width of its bounding client rectangle on
  screen, and its 2D context (\<^verbatim>\<open>getContext('2d')\<close> may return \<^verbatim>\<open>null\<close>).
\<close>

record Canvas =
  cv_width :: real
  cv_height :: real
  rect_width :: real
  cv_ctx :: "Ctx option"

record Point =
  pt_x :: real
  pt_y :: real

text \<open>
  The state hooks of \<^verbatim>\<open>App\<close> (\<open>photo\<close>, \<open>frame\<close>, \<open>frameError\<close>) and of
  \<^verbatim>\<open>CanvasEditor\<close> (\<open>isDragging\<close>, \<open>dragStart\<close>, \<open>frameImg\<close>, \<open>photoImg\<close>), and
  \<^verbatim>\<open>canvasRef.current\<close>. Each handler runs on the state the previous one committed.
\<close>

record State =
  photo :: PhotoState
  frame :: FrameState
  frameError :: "string option"
  isDragging :: bool
  dragStart :: Point
  frameImg :: "Image option"
  photoImg :: "Image option"
  canvas :: "Canvas option"

definition initial_State :: "Canvas option \<Rightarrow> State" where
  "initial_State cv =
     \<lparr>photo = INITIAL_PHOTO_STATE,
      frame = \<lparr>frame_src = None, frame_width = None, frame_height = None\<rparr>,
      frameError = None,
      isDragging = False,
      dragStart = \<lparr>pt_x = 0, pt_y = 0\<rparr>,
      frameImg = None,
      photoImg = None,
      canvas = cv\<rparr>"

section \<open>Direct controls (App.tsx)\<close>

text \<open>The \<^verbatim>\<open>onClick\<close> of the "Reset Position" button:
  \<^verbatim>\<open>setPhoto(prev => ({...prev, x: 0, y: 0, scale: 1, rotation: 0}))\<close>.\<close>

definition resetPosition :: "State \<Rightarrow> State" where
  "resetPosition s =
     s\<lparr>photo := (photo s)\<lparr>photo_x := 0, photo_y := 0, photo_scale := 1, photo_rotation := 0\<rparr>\<rparr>"

text \<open>
  The \<^verbatim>\<open>onChange\<close> handlers of the two range inputs. The argument is
  \<^verbatim>\<open>parseFloat(e.target.value)\<close>.
\<close>

definition onScaleChange :: "real \<Rightarrow> State \<Rightarrow> State" where
  "onScaleChange v s = s\<lparr>photo := (photo s)\<lparr>photo_scale := v\<rparr>\<rparr>"

definition onRotationChange :: "real \<Rightarrow> State \<Rightarrow> State" where
  "onRotationChange v s = s\<lparr>photo := (photo s)\<lparr>photo_rotation := v\<rparr>\<rparr>"

text \<open>
  The attributes of the two inputs: \<^verbatim>\<open>min="0.1" max="4" step="0.1"\<close> and
  \<^verbatim>\<open>min="-180" max="180" step="1"\<close>.
\<close>

definition scale_min :: real where "scale_min = 1 / 10"
definition scale_max :: real where "scale_max = 4"
definition scale_step :: real where "scale_step = 1 / 10"
definition rotation_min :: real where "rotation_min = - 180"
definition rotation_max :: real where "rotation_max = 180"
definition rotation_step :: real where "rotation_step = 1"

text \<open>
  The value that an \<^verbatim>\<open>input\<close> of type \<^verbatim>\<open>range\<close> holds, and reports in
  \<^verbatim>\<open>e.target.value\<close>, for what it is given (\<open>None\<close> for a text that is no number): a
  text that is no number becomes the default, the middle of the range; a value below
  the minimum becomes the minimum and one above the maximum the maximum; and the value
  is rounded to the nearest one that is a whole number of steps from the minimum, the
  upper one on a tie, kept within the range.
\<close>

definition rangeDefault :: "real \<Rightarrow> real \<Rightarrow> real" where
  "rangeDefault lo hi = (if hi < lo then lo else lo + (hi - lo) / 2)"

definition rangeValue :: "real \<Rightarrow> real \<Rightarrow> real \<Rightarrow> real option \<Rightarrow> real" where
  "rangeValue lo hi step given =
     (let v = (case given of None \<Rightarrow> rangeDefault lo hi | Some x \<Rightarrow> x);
          c = (if v < lo then lo else if lo \<le> hi \<and> hi < v then hi else v);
          nearest = lo + step * of_int \<lfloor>(c - lo) / step + 1 / 2\<rfloor>
      in if lo \<le> hi \<and> hi < nearest then lo + step * of_int \<lfloor>(hi - lo) / step\<rfloor>
         else nearest)"

text \<open>
  A change of one of the sliders: the two inputs are part of the page only while
  \<^verbatim>\<open>photo.src\<close> is set, and the handler receives the value the input holds.
\<close>

definition scaleSlider :: "real option \<Rightarrow> State \<Rightarrow> State" where
  "scaleSlider given s =
     (if truthy_str (photo_src (photo s))
      then onScaleChange (rangeValue scale_min scale_max scale_step given) s
      else s)"

definition rotationSlider :: "real option \<Rightarrow> State \<Rightarrow> State" where
  "rotationSlider given s =
     (if truthy_str (photo_src (photo s))
      then onRotationChange (rangeValue rotation_min rotation_max rotation_step given) s
      else s)"

section \<open>Choosing files and loading bitmaps\<close>

text \<open>
  What the environment reports back: a \<^verbatim>\<open>FileReader\<close> either fires \<^verbatim>\<open>onload\<close> with
  a result or does not; an image either fires \<^verbatim>\<open>onload\<close>, with its decoded size, or
  fails.
\<close>

datatype ReadOutcome = ReadOk string | ReadError

datatype LoadOutcome = Decoded real real | LoadError

datatype FileKind = PhotoKind | FrameKind

text \<open>
  \<^verbatim>\<open>handleFileChange(e, type)\<close>. \<open>file\<close> is \<^verbatim>\<open>e.target.files?.[0]\<close> with the outcome
  of reading it; \<open>dec\<close> is the outcome of the \<^verbatim>\<open>new Image()\<close> that the frame branch
  loads to learn the frame's size. That image has no \<^verbatim>\<open>onerror\<close>.
\<close>

definition handleFileChange :: "ReadOutcome option \<Rightarrow> FileKind \<Rightarrow> LoadOutcome \<Rightarrow> State \<Rightarrow> State" where
  "handleFileChange file type dec s =
     (case file of
        None \<Rightarrow> s
      | Some ReadError \<Rightarrow> s
      | Some (ReadOk result) \<Rightarrow>
          if result = [] then s
          else (case type of
                  PhotoKind \<Rightarrow> s\<lparr>photo := INITIAL_PHOTO_STATE\<lparr>photo_src := Some result\<rparr>\<rparr>
                | FrameKind \<Rightarrow>
                    (case dec of
                       Decoded w h \<Rightarrow>
                         s\<lparr>frame := \<lparr>frame_src = Some result, frame_width = Some w,
                                     frame_height = Some h\<rparr>,
                           frameError := None\<rparr>
                     | LoadError \<Rightarrow> s)))"


text \<open>
  The two load effects of \<^verbatim>\<open>CanvasEditor\<close>, each with the outcome of the image it
  starts. Neither image has an \<^verbatim>\<open>onerror\<close>: a failed load sets nothing.
\<close>

definition loadFrameEffect :: "LoadOutcome \<Rightarrow> State \<Rightarrow> State" where
  "loadFrameEffect dec s =
     (if truthy_str (frame_src (frame s)) then
        (case dec of
           Decoded w h \<Rightarrow>
             s\<lparr>frameImg := Some \<lparr>img_src = the (frame_src (frame s)), img_width = w,
                                  img_height = h\<rparr>\<rparr>
         | LoadError \<Rightarrow> s)
      else s\<lparr>frameImg := None\<rparr>)"

definition loadPhotoEffect :: "LoadOutcome \<Rightarrow> State \<Rightarrow> State" where
  "loadPhotoEffect dec s =
     (if truthy_str (photo_src (photo s)) then
        (case dec of
           Decoded w h \<Rightarrow>
             s\<lparr>photoImg := Some \<lparr>img_src = the (photo_src (photo s)), img_width = w,
                                  img_height = h\<rparr>\<rparr>
         | LoadError \<Rightarrow> s)
      else s\<lparr>photoImg := None\<rparr>)"

section \<open>Doubles and the size attributes of a canvas\<close>

text \<open>
  The value of a JavaScript \<^verbatim>\<open>/\<close> or \<^verbatim>\<open>*\<close> is the exact result rounded to the nearest
  double, a tie going to the even significand. A double has a significand of 53 bits:
  for \<open>2^e \<le> |x| < 2^(e+1)\<close> the doubles around \<open>x\<close> are the multiples of
  \<open>2^(e-52)\<close>, with \<open>e\<close> not below \<open>-1022\<close>. Results of \<open>2^1024\<close> and beyond, which
  JavaScript turns into an infinity, are not represented.
\<close>

definition rne :: "real \<Rightarrow> int" where
  "rne r =
     (let f = \<lfloor>r\<rfloor> in
        if r - of_int f < 1 / 2 then f
        else if 1 / 2 < r - of_int f then f + 1
        else if even f then f else f + 1)"

fun exponentFrom :: "nat \<Rightarrow> real \<Rightarrow> int" where
  "exponentFrom 0 x = - 1022"
| "exponentFrom (Suc n) x =
     (if 2 powi (int (Suc n) - 1022) \<le> x then int (Suc n) - 1022 else exponentFrom n x)"

definition exponent :: "real \<Rightarrow> int" where
  "exponent x = exponentFrom 2045 \<bar>x\<bar>"

definition fl :: "real \<Rightarrow> real" where
  "fl x = (let u = 2 powi (exponent x - 52) in of_int (rne (x / u)) * u)"

definition js_div :: "real \<Rightarrow> real \<Rightarrow> real" where
  "js_div a b = fl (a / b)"

definition js_mul :: "real \<Rightarrow> real \<Rightarrow> real" where
  "js_mul a b = fl (a * b)"

text \<open>
  \<^verbatim>\<open>canvas.width\<close> and \<^verbatim>\<open>canvas.height\<close> are attributes of type \<^verbatim>\<open>unsigned long\<close>.
  A number assigned to one of them is cut to its integer part and reduced modulo
  \<open>2^32\<close>; a result above \<open>2^31 - 1\<close> is replaced by the attribute's default, 300 for
  the width and 150 for the height.
\<close>

definition toUnsignedLong :: "real \<Rightarrow> int" where
  "toUnsignedLong v = (if v < 0 then \<lceil>v\<rceil> else \<lfloor>v\<rfloor>) mod 2 ^ 32"

definition canvasDimension :: "int \<Rightarrow> real \<Rightarrow> real" where
  "canvasDimension dflt v =
     (let n = toUnsignedLong v in if n \<le> 2147483647 then of_int n else of_int dflt)"

text \<open>Assigning to either attribute, even the value it has, empties the canvas and
  puts its context back into the default state.\<close>

definition resetContext :: "Ctx \<Rightarrow> Ctx" where
  "resetContext c = \<lparr>ctm = mat_id, fillStyle = ''#000000'', saved = [], painted = []\<rparr>"

section \<open>Canvas sizing (CanvasEditor.tsx)\<close>

text \<open>The values of the locals \<open>width\<close> and \<open>height\<close> that the sizing effect assigns
  to the canvas.\<close>

definition canvasSize :: "FrameState \<Rightarrow> real \<times> real" where
  "canvasSize fr =
     (if truthy_num (frame_width fr) \<and> truthy_num (frame_height fr) then
        (let maxDim = 1080;
             ratio = js_div (the (frame_width fr)) (the (frame_height fr))
         in if the (frame_width fr) > the (frame_height fr)
            then (maxDim, js_div maxDim ratio)
            else (js_mul maxDim ratio, maxDim))
      else (1080, 1080))"

definition sizeEffect :: "State \<Rightarrow> State" where
  "sizeEffect s =
     (case canvas s of
        None \<Rightarrow> s
      | Some cv \<Rightarrow>
          s\<lparr>canvas := Some (cv\<lparr>cv_width := canvasDimension 300 (fst (canvasSize (frame s))),
                               cv_height := canvasDimension 150 (snd (canvasSize (frame s))),
                               cv_ctx := map_option resetContext (cv_ctx cv)\<rparr>)\<rparr>)"

text \<open>
  A render of \<^verbatim>\<open>App\<close> from the state \<open>old\<close> to the state \<open>new\<close>, followed by the
  effects of \<^verbatim>\<open>CanvasEditor\<close> in the order of the source: a load effect runs when
  its \<^verbatim>\<open>src\<close> changed (\<open>fdec\<close> and \<open>pdec\<close> are the outcomes of the loads they
  start); the sizing effect runs each time, since \<^verbatim>\<open>onCanvasReady\<close> is a new
  function at every render of \<^verbatim>\<open>App\<close>.
\<close>

definition commit :: "State \<Rightarrow> LoadOutcome \<Rightarrow> LoadOutcome \<Rightarrow> State \<Rightarrow> State" where
  "commit old fdec pdec new =
     (let s1 = (if frame_src (frame new) = frame_src (frame old) then new
                else loadFrameEffect fdec new);
          s2 = (if photo_src (photo new) = photo_src (photo old) then s1
                else loadPhotoEffect pdec s1)
      in sizeEffect s2)"

text \<open>
  Choosing a file in one of the two pickers, up to the completion of the loads it
  starts. Where the handler set no state nothing is rendered and no effect runs.
\<close>

definition chooseFile ::
  "ReadOutcome option \<Rightarrow> FileKind \<Rightarrow> LoadOutcome \<Rightarrow> LoadOutcome \<Rightarrow> LoadOutcome \<Rightarrow> State \<Rightarrow> State" where
  "chooseFile file type dec fdec pdec s =
     (let s' = handleFileChange file type dec s
      in if s' = s then s else commit s fdec pdec s')"

section \<open>Compositor (CanvasEditor.tsx)\<close>

definition drawPhotoLayer :: "Ctx \<Rightarrow> Image \<Rightarrow> PhotoState \<Rightarrow> real \<Rightarrow> real \<Rightarrow> Ctx" where
  "drawPhotoLayer ctx img p cw ch =
     (let c1 = ctx_save ctx;
          c2 = ctx_translate (cw / 2 + photo_x p) (ch / 2 + photo_y p) c1;
          c3 = ctx_rotate ((photo_rotation p * pi) / 180) c2;
          c4 = ctx_scale (photo_scale p) (photo_scale p) c3;
          c5 = ctx_drawImage3 img (- img_width img / 2) (- img_height img / 2) c4
      in ctx_restore c5)"

definition draw :: "State \<Rightarrow> State" where
  "draw s =
     (case canvas s of
        None \<Rightarrow> s
      | Some cv \<Rightarrow>
          (case cv_ctx cv of
             None \<Rightarrow> s
           | Some ctx \<Rightarrow>
               (let c1 = ctx_clearRect 0 0 (cv_width cv) (cv_height cv) ctx;
                    c2 = c1\<lparr>fillStyle := ''#ffffff''\<rparr>;
                    c3 = ctx_fillRect 0 0 (cv_width cv) (cv_height cv) c2;
                    c4 = (case photoImg s of
                            None \<Rightarrow> c3
                          | Some img \<Rightarrow>
                              drawPhotoLayer c3 img (photo s) (cv_width cv) (cv_height cv));
                    c5 = (case frameImg s of
                            None \<Rightarrow> c4
                          | Some fimg \<Rightarrow>
                              ctx_drawImage5 fimg 0 0 (cv_width cv) (cv_height cv) c4)
                in s\<lparr>canvas := Some (cv\<lparr>cv_ctx := Some c5\<rparr>)\<rparr>)))"

section \<open>Interaction handlers (CanvasEditor.tsx)\<close>

definition handlePointerDown :: "real \<Rightarrow> real \<Rightarrow> State \<Rightarrow> State" where
  "handlePointerDown clientX clientY s =
     (case canvas s of
        None \<Rightarrow> s
      | Some cv \<Rightarrow> s\<lparr>isDragging := True, dragStart := \<lparr>pt_x = clientX, pt_y = clientY\<rparr>\<rparr>)"

definition handlePointerMove :: "real \<Rightarrow> real \<Rightarrow> State \<Rightarrow> State" where
  "handlePointerMove clientX clientY s =
     (if \<not> isDragging s then s
      else (case canvas s of
              None \<Rightarrow> s
            | Some cv \<Rightarrow>
                (let sensitivity = cv_width cv / rect_width cv;
                     dx = (clientX - pt_x (dragStart s)) * sensitivity;
                     dy = (clientY - pt_y (dragStart s)) * sensitivity
                 in s\<lparr>photo := (photo s)\<lparr>photo_x := photo_x (photo s) + dx,
                                         photo_y := photo_y (photo s) + dy\<rparr>,
                      dragStart := \<lparr>pt_x = clientX, pt_y = clientY\<rparr>\<rparr>)))"

definition handlePointerUp :: "State \<Rightarrow> State" where
  "handlePointerUp s = s\<lparr>isDragging := False\<rparr>"

text \<open>
  The events of the canvas element. A touch event carries its list of touches, and
  the handlers read \<^verbatim>\<open>e.touches[0]\<close>: on an empty list that read throws before any
  state is set. What is thrown is a \<open>JsError\<close>: a \<open>TypeError\<close> here, an \<open>ApiError\<close>
  where a request to the caption service fails.
\<close>

datatype JsError = TypeError | ApiError

datatype UiEvent =
    MouseDown real real
  | MouseMove real real
  | MouseUp
  | MouseLeave
  | TouchStart "Point list"
  | TouchMove "Point list"
  | TouchEnd

fun dispatch :: "UiEvent \<Rightarrow> State \<Rightarrow> JsError + State" where
  "dispatch (MouseDown cx cy) s = Inr (handlePointerDown cx cy s)"
| "dispatch (MouseMove cx cy) s = Inr (handlePointerMove cx cy s)"
| "dispatch MouseUp s = Inr (handlePointerUp s)"
| "dispatch MouseLeave s = Inr (handlePointerUp s)"
| "dispatch (TouchStart []) s = Inl TypeError"
| "dispatch (TouchStart (touch # rest)) s = Inr (handlePointerDown (pt_x touch) (pt_y touch) s)"
| "dispatch (TouchMove []) s = Inl TypeError"
| "dispatch (TouchMove (touch # rest)) s = Inr (handlePointerMove (pt_x touch) (pt_y touch) s)"
| "dispatch TouchEnd s = Inr (handlePointerUp s)"

text \<open>A sequence of events; a handler that throws leaves the state as it was.\<close>

fun runEvents :: "UiEvent list \<Rightarrow> State \<Rightarrow> State" where
  "runEvents [] s = s"
| "runEvents (e # es) s =
     runEvents es (case dispatch e s of Inl err \<Rightarrow> s | Inr s' \<Rightarrow> s')"

section \<open>Gestures, the painted surface, example states\<close>

text \<open>A mounted canvas of 1000 by 1000 pixels shown 500 wide, with a fresh context.\<close>

definition canvas1000 :: Canvas where
  "canvas1000 =
     \<lparr>cv_width = 1000, cv_height = 1000, rect_width = 500,
      cv_ctx = Some \<lparr>ctm = mat_id, fillStyle = ''#000000'', saved = [], painted = []\<rparr>\<rparr>"

text \<open>A photo that has been moved, zoomed and turned.\<close>

definition adjusted :: State where
  "adjusted =
     (initial_State (Some canvas1000))
       \<lparr>photo := \<lparr>photo_src = Some ''data:a'', photo_x = 40, photo_y = - 25,
                   photo_scale = 2, photo_rotation = 90\<rparr>\<rparr>"



text \<open>A state whose frame has the given size.\<close>

definition framed :: "real \<Rightarrow> real \<Rightarrow> State" where
  "framed w h =
     (initial_State (Some canvas1000))
       \<lparr>frame := \<lparr>frame_src = Some ''data:f'', frame_width = Some w, frame_height = Some h\<rparr>\<rparr>"

text \<open>Where the centre of what a drawing call covers comes to lie on the surface.\<close>

definition paint_centre :: "Paint \<Rightarrow> real \<times> real" where
  "paint_centre q =
     (case q of
        Cleared M x y w h \<Rightarrow> mat_apply M (x + w / 2, y + h / 2)
      | Filled style M x y w h \<Rightarrow> mat_apply M (x + w / 2, y + h / 2)
      | Drawn img M x y w h \<Rightarrow> mat_apply M (x + w / 2, y + h / 2))"

text \<open>Everything painted so far on the canvas of a state.\<close>

definition surface :: "State \<Rightarrow> Paint list" where
  "surface s =
     (case canvas s of
        None \<Rightarrow> []
      | Some cv \<Rightarrow> (case cv_ctx cv of None \<Rightarrow> [] | Some c \<Rightarrow> painted c))"

text \<open>A state with a photo bitmap of 400 by 300 and a frame bitmap of 1600 by 1200.\<close>

definition composed :: State where
  "composed =
     adjusted\<lparr>photoImg := Some \<lparr>img_src = ''data:a'', img_width = 400, img_height = 300\<rparr>,
              frameImg := Some \<lparr>img_src = ''data:f'', img_width = 1600, img_height = 1200\<rparr>\<rparr>"

section \<open>Caption service (services/gemini.ts)\<close>

text \<open>\<^verbatim>\<open>process.env.API_KEY || ''\<close>, from the environment variable, which may be unset.\<close>

definition apiKey :: "string option \<Rightarrow> string" where
  "apiKey env = (case env of None \<Rightarrow> [] | Some k \<Rightarrow> k)"

text \<open>\<^verbatim>\<open>s.split(c)\<close> for a one-character separator: the pieces between the separators,
  at least one.\<close>

fun split :: "char \<Rightarrow> string \<Rightarrow> string list" where
  "split c [] = [[]]"
| "split c (x # xs) =
     (if x = c then [] # split c xs
      else (case split c xs of
              [] \<Rightarrow> [[x]]
            | piece # pieces \<Rightarrow> (x # piece) # pieces))"

text \<open>\<^verbatim>\<open>base64Image.split(',')[1] || base64Image\<close>: the second piece, unless it is missing
  or empty.\<close>

definition cleanBase64 :: "string \<Rightarrow> string" where
  "cleanBase64 base64Image =
     (case split CHR '','' base64Image of
        first # second # rest \<Rightarrow> if second = [] then base64Image else second
      | _ \<Rightarrow> base64Image)"

text \<open>\<^verbatim>\<open>trim\<close> removes white space and line terminators at both ends; of those, the
  characters below are the ones in ASCII.\<close>

definition isWhiteSpace :: "char \<Rightarrow> bool" where
  "isWhiteSpace c = (c \<in> set [CHR 0x09, CHR 0x0A, CHR 0x0B, CHR 0x0C, CHR 0x0D, CHR 0x20])"

definition trim :: "string \<Rightarrow> string" where
  "trim s = rev (dropWhile isWhiteSpace (rev (dropWhile isWhiteSpace s)))"

text \<open>The response of \<^verbatim>\<open>generateContent\<close>: its \<^verbatim>\<open>text\<close> may be undefined.\<close>

record Response =
  resp_text :: "string option"

text \<open>
  The \<^verbatim>\<open>try\<close> block of \<^verbatim>\<open>generateCaptionForPhoto\<close>. \<open>generateContent\<close> stands for the
  awaited request to the model with the image data: it throws (\<open>Inl\<close>) or gives a
  response.
\<close>

definition requestCaption :: "(string \<Rightarrow> JsError + Response) \<Rightarrow> string \<Rightarrow> JsError + string" where
  "requestCaption generateContent base64Image =
     (case generateContent (cleanBase64 base64Image) of
        Inl err \<Rightarrow> Inl err
      | Inr response \<Rightarrow>
          Inr (case resp_text response of
                 None \<Rightarrow> ''Memories forever''
               | Some t \<Rightarrow> if trim t = [] then ''Memories forever'' else trim t))"

text \<open>\<^verbatim>\<open>generateCaptionForPhoto\<close>: the test of the key, then the \<^verbatim>\<open>try\<close> block with its
  \<^verbatim>\<open>catch\<close>.\<close>

definition generateCaptionForPhoto ::
  "string option \<Rightarrow> (string \<Rightarrow> JsError + Response) \<Rightarrow> string \<Rightarrow> JsError + string" where
  "generateCaptionForPhoto env generateContent base64Image =
     (if apiKey env = [] then Inr ''Capture the moment!''
      else (case requestCaption generateContent base64Image of
              Inl error \<Rightarrow> Inr ''Beautiful Day''
            | Inr caption \<Rightarrow> Inr caption))"

text \<open>The number of words of a text: its non-empty pieces between spaces.\<close>

definition wordCount :: "string \<Rightarrow> nat" where
  "wordCount s = length (filter (\<lambda>w. w \<noteq> []) (split CHR '' '' s))"

text \<open>The pixel size of the canvas of a state, when there is a canvas.\<close>

definition canvasDims :: "State \<Rightarrow> (real \<times> real) option" where
  "canvasDims s = map_option (\<lambda>cv. (cv_width cv, cv_height cv)) (canvas s)"


section \<open>Properties of the direct controls\<close>

text \<open>
  C5. Whatever the photo transform was, the reset operation leaves
  \<open>(offsetX, offsetY, scale, rotation) = (0, 0, 1, 0)\<close>; the bitmap handle \<open>src\<close> and
  every other part of the state (frame, frame error, drag state, loaded bitmaps,
  canvas) are as before.
\<close>

theorem C5_reset:
  "photo_x (photo (resetPosition s)) = 0 \<and>
   photo_y (photo (resetPosition s)) = 0 \<and>
   photo_scale (photo (resetPosition s)) = 1 \<and>
   photo_rotation (photo (resetPosition s)) = 0 \<and>
   photo_src (photo (resetPosition s)) = photo_src (photo s) \<and>
   photoImg (resetPosition s) = photoImg s \<and>
   frame (resetPosition s) = frame s \<and>
   frameImg (resetPosition s) = frameImg s \<and>
   frameError (resetPosition s) = frameError s \<and>
   isDragging (resetPosition s) = isDragging s \<and>
   dragStart (resetPosition s) = dragStart s \<and>
   canvas (resetPosition s) = canvas s"
  by (simp add: resetPosition_def)

section \<open>Choosing a photo\<close>

lemma photo_loadFrameEffect: "photo (loadFrameEffect dec s) = photo s"
  by (simp add: loadFrameEffect_def split: LoadOutcome.splits)

lemma photo_loadPhotoEffect: "photo (loadPhotoEffect dec s) = photo s"
  by (simp add: loadPhotoEffect_def split: LoadOutcome.splits)

lemma photo_sizeEffect: "photo (sizeEffect s) = photo s"
  by (simp add: sizeEffect_def split: option.splits)

lemma photo_commit: "photo (commit old fdec pdec new) = photo new"
  by (simp add: commit_def Let_def photo_sizeEffect photo_loadPhotoEffect photo_loadFrameEffect)

lemma photo_chooseFile:
  "photo (chooseFile file type dec fdec pdec s) = photo (handleFileChange file type dec s)"
proof (cases "handleFileChange file type dec s = s")
  case True
  then show ?thesis by (simp add: chooseFile_def)
next
  case False
  then show ?thesis by (simp add: chooseFile_def photo_commit)
qed

text \<open>
  C10. Choosing a photo file whose read gives a result installs the new source with
  the initial transform: offsets 0, scale 1, rotation 0, whatever the adjustments of
  the previous photo were. This is so as soon as the handler has run, and it stays so
  whether the load of the new bitmap then succeeds or fails.
\<close>

theorem C10_new_photo_resets_transform:
  "result \<noteq> [] \<Longrightarrow>
     photo (handleFileChange (Some (ReadOk result)) PhotoKind dec s) =
       \<lparr>photo_src = Some result, photo_x = 0, photo_y = 0, photo_scale = 1, photo_rotation = 0\<rparr> \<and>
     photo (chooseFile (Some (ReadOk result)) PhotoKind dec fdec pdec s) =
       \<lparr>photo_src = Some result, photo_x = 0, photo_y = 0, photo_scale = 1, photo_rotation = 0\<rparr>"
  by (simp add: photo_chooseFile handleFileChange_def INITIAL_PHOTO_STATE_def)

theorem C10_witness:
  "''data:b'' \<noteq> [] \<and>
   photo (handleFileChange (Some (ReadOk ''data:b'')) PhotoKind LoadError adjusted) =
       \<lparr>photo_src = Some ''data:b'', photo_x = 0, photo_y = 0, photo_scale = 1, photo_rotation = 0\<rparr> \<and>
   photo (chooseFile (Some (ReadOk ''data:b'')) PhotoKind LoadError LoadError LoadError adjusted) =
       \<lparr>photo_src = Some ''data:b'', photo_x = 0, photo_y = 0, photo_scale = 1, photo_rotation = 0\<rparr>"
  using C10_new_photo_resets_transform [of "''data:b''" LoadError adjusted LoadError LoadError]
  by simp

subsection \<open>The sliders\<close>

lemma rangeValue_in_range:
  assumes "lo \<le> hi" and "0 < step"
  shows "lo \<le> rangeValue lo hi step given \<and> rangeValue lo hi step given \<le> hi"
proof -
  define v where "v = (case given of None \<Rightarrow> rangeDefault lo hi | Some x \<Rightarrow> x)"
  define c where "c = (if v < lo then lo else if lo \<le> hi \<and> hi < v then hi else v)"
  define nearest where "nearest = lo + step * of_int \<lfloor>(c - lo) / step + 1 / 2\<rfloor>"
  define below where "below = lo + step * of_int \<lfloor>(hi - lo) / step\<rfloor>"
  have r: "rangeValue lo hi step given = (if lo \<le> hi \<and> hi < nearest then below else nearest)"
    by (simp add: rangeValue_def Let_def v_def c_def nearest_def below_def)
  have c: "lo \<le> c"
    using assms(1) by (simp add: c_def)
  then have "0 \<le> (c - lo) / step + 1 / 2"
    using assms(2) by simp
  then have "0 \<le> \<lfloor>(c - lo) / step + 1 / 2\<rfloor>"
    by simp
  then have n: "lo \<le> nearest"
    using assms(2) by (simp add: nearest_def)
  have "0 \<le> (hi - lo) / step"
    using assms by simp
  then have "0 \<le> \<lfloor>(hi - lo) / step\<rfloor>"
    by simp
  then have b1: "lo \<le> below"
    using assms(2) by (simp add: below_def)
  have "step * of_int \<lfloor>(hi - lo) / step\<rfloor> \<le> step * ((hi - lo) / step)"
    using assms(2) by (intro mult_left_mono) simp_all
  also have "\<dots> = hi - lo"
    using assms(2) by simp
  finally have b2: "below \<le> hi"
    by (simp add: below_def)
  show ?thesis
    unfolding r using n b1 b2 by simp
qed

lemma scale_dispatch:
  "dispatch e s = Inr s' \<Longrightarrow> photo_scale (photo s') = photo_scale (photo s)"
proof (cases e)
  case (TouchStart ts)
  then show "dispatch e s = Inr s' \<Longrightarrow> ?thesis"
    by (cases ts) (auto simp: handlePointerDown_def split: option.splits)
next
  case (TouchMove ts)
  then show "dispatch e s = Inr s' \<Longrightarrow> ?thesis"
    by (cases ts) (auto simp: handlePointerMove_def Let_def split: option.splits)
qed (auto simp: handlePointerDown_def handlePointerMove_def handlePointerUp_def Let_def
      split: option.splits)

lemma scale_runEvents: "photo_scale (photo (runEvents evs s)) = photo_scale (photo s)"
proof (induction evs arbitrary: s)
  case Nil
  show ?case by simp
next
  case (Cons e evs)
  show ?case
  proof (cases "dispatch e s")
    case (Inl err)
    with Cons show ?thesis by simp
  next
    case (Inr s')
    with Cons.IH [of s'] scale_dispatch [OF Inr] show ?thesis by simp
  qed
qed

lemma scale_handleFileChange:
  "0 < photo_scale (photo s) \<Longrightarrow> 0 < photo_scale (photo (handleFileChange file type dec s))"
  by (simp add: handleFileChange_def INITIAL_PHOTO_STATE_def
      split: option.splits ReadOutcome.splits FileKind.splits LoadOutcome.splits)

text \<open>
  C8. Whatever a slider is given, a number inside or outside its range or a text that
  is no number, the value it holds lies within its range, and the handler stores that
  value: after a change of the scale slider the scale is within 0.1 and 4, hence
  positive, and after a change of the rotation slider the rotation is within -180 and
  180. While no photo source is set the sliders are not there and the state stays as
  it is. No operation of the editor makes a positive scale non-positive: not the
  sliders, the reset, the pointer and touch events, or the choice of a file; and the
  scale is 1 at the start.
\<close>

theorem C8_direct_controls_in_range:
  "(truthy_str (photo_src (photo s)) \<longrightarrow>
      photo (scaleSlider given s) =
        (photo s)\<lparr>photo_scale := rangeValue scale_min scale_max scale_step given\<rparr> \<and>
      photo (rotationSlider given s) =
        (photo s)\<lparr>photo_rotation := rangeValue rotation_min rotation_max rotation_step given\<rparr> \<and>
      1 / 10 \<le> photo_scale (photo (scaleSlider given s)) \<and>
      photo_scale (photo (scaleSlider given s)) \<le> 4 \<and>
      0 < photo_scale (photo (scaleSlider given s)) \<and>
      - 180 \<le> photo_rotation (photo (rotationSlider given s)) \<and>
      photo_rotation (photo (rotationSlider given s)) \<le> 180) \<and>
   (\<not> truthy_str (photo_src (photo s)) \<longrightarrow>
      scaleSlider given s = s \<and> rotationSlider given s = s) \<and>
   (0 < photo_scale (photo s) \<longrightarrow>
      0 < photo_scale (photo (scaleSlider given s)) \<and>
      0 < photo_scale (photo (rotationSlider given s)) \<and>
      0 < photo_scale (photo (resetPosition s)) \<and>
      0 < photo_scale (photo (runEvents evs s)) \<and>
      0 < photo_scale (photo (chooseFile file type dec fdec pdec s))) \<and>
   photo_scale (photo (initial_State cv)) = 1"
proof -
  have sr: "1 / 10 \<le> rangeValue scale_min scale_max scale_step given \<and>
        rangeValue scale_min scale_max scale_step given \<le> 4"
    using rangeValue_in_range [of scale_min scale_max scale_step given]
    by (simp add: scale_min_def scale_max_def scale_step_def)
  have rr: "- 180 \<le> rangeValue rotation_min rotation_max rotation_step given \<and>
        rangeValue rotation_min rotation_max rotation_step given \<le> 180"
    using rangeValue_in_range [of rotation_min rotation_max rotation_step given]
    by (simp add: rotation_min_def rotation_max_def rotation_step_def)
  have 1: "truthy_str (photo_src (photo s)) \<longrightarrow>
      photo (scaleSlider given s) =
        (photo s)\<lparr>photo_scale := rangeValue scale_min scale_max scale_step given\<rparr> \<and>
      photo (rotationSlider given s) =
        (photo s)\<lparr>photo_rotation := rangeValue rotation_min rotation_max rotation_step given\<rparr> \<and>
      1 / 10 \<le> photo_scale (photo (scaleSlider given s)) \<and>
      photo_scale (photo (scaleSlider given s)) \<le> 4 \<and>
      0 < photo_scale (photo (scaleSlider given s)) \<and>
      - 180 \<le> photo_rotation (photo (rotationSlider given s)) \<and>
      photo_rotation (photo (rotationSlider given s)) \<le> 180"
    using sr rr by (simp add: scaleSlider_def rotationSlider_def onScaleChange_def onRotationChange_def)
  have 2: "\<not> truthy_str (photo_src (photo s)) \<longrightarrow>
      scaleSlider given s = s \<and> rotationSlider given s = s"
    by (simp add: scaleSlider_def rotationSlider_def)
  have 3: "0 < photo_scale (photo s) \<longrightarrow>
      0 < photo_scale (photo (scaleSlider given s)) \<and>
      0 < photo_scale (photo (rotationSlider given s)) \<and>
      0 < photo_scale (photo (resetPosition s)) \<and>
      0 < photo_scale (photo (runEvents evs s)) \<and>
      0 < photo_scale (photo (chooseFile file type dec fdec pdec s))"
    using sr scale_handleFileChange [of s "file" type dec]
    by (simp add: scaleSlider_def rotationSlider_def onScaleChange_def onRotationChange_def
        resetPosition_def scale_runEvents photo_chooseFile)
  have 4: "photo_scale (photo (initial_State cv)) = 1"
    by (simp add: initial_State_def INITIAL_PHOTO_STATE_def)
  show ?thesis
    by (intro conjI 1 2 3 4)
qed

theorem C8_witness:
  "truthy_str (photo_src (photo adjusted)) \<and>
   0 < photo_scale (photo adjusted) \<and>
   photo_scale (photo (scaleSlider (Some (- 5)) adjusted)) = 1 / 10 \<and>
   0 < photo_scale (photo (scaleSlider (Some (- 5)) adjusted)) \<and>
   photo_rotation (photo (rotationSlider (Some 500) adjusted)) = 180 \<and>
   photo_scale (photo (scaleSlider None adjusted)) = 21 / 10"
proof -
  have a: "truthy_str (photo_src (photo adjusted))" and p: "0 < photo_scale (photo adjusted)"
    by (simp_all add: adjusted_def truthy_str_def)
  have v1: "rangeValue scale_min scale_max scale_step (Some (- 5)) = 1 / 10"
    by (simp add: rangeValue_def scale_min_def scale_max_def scale_step_def Let_def)
  have v2: "rangeValue rotation_min rotation_max rotation_step (Some 500) = 180"
    by (simp add: rangeValue_def rotation_min_def rotation_max_def rotation_step_def Let_def)
  have v3: "rangeValue scale_min scale_max scale_step None = 21 / 10"
    by (simp add: rangeValue_def rangeDefault_def scale_min_def scale_max_def scale_step_def Let_def)
  from C8_direct_controls_in_range [where s = adjusted and given = "Some (- 5)"]
  have "truthy_str (photo_src (photo adjusted)) \<longrightarrow>
      photo (scaleSlider (Some (- 5)) adjusted) =
        (photo adjusted)\<lparr>photo_scale := rangeValue scale_min scale_max scale_step (Some (- 5))\<rparr> \<and>
      photo (rotationSlider (Some (- 5)) adjusted) =
        (photo adjusted)\<lparr>photo_rotation :=
           rangeValue rotation_min rotation_max rotation_step (Some (- 5))\<rparr> \<and>
      1 / 10 \<le> photo_scale (photo (scaleSlider (Some (- 5)) adjusted)) \<and>
      photo_scale (photo (scaleSlider (Some (- 5)) adjusted)) \<le> 4 \<and>
      0 < photo_scale (photo (scaleSlider (Some (- 5)) adjusted)) \<and>
      - 180 \<le> photo_rotation (photo (rotationSlider (Some (- 5)) adjusted)) \<and>
      photo_rotation (photo (rotationSlider (Some (- 5)) adjusted)) \<le> 180"
    by (rule conjunct1)
  with a have A: "photo (scaleSlider (Some (- 5)) adjusted) =
        (photo adjusted)\<lparr>photo_scale := rangeValue scale_min scale_max scale_step (Some (- 5))\<rparr>"
    and B: "0 < photo_scale (photo (scaleSlider (Some (- 5)) adjusted))"
    by blast+
  have s1: "photo_scale (photo (scaleSlider (Some (- 5)) adjusted)) = 1 / 10"
    unfolding A v1 by simp
  from C8_direct_controls_in_range [where s = adjusted and given = "Some 500"]
  have "truthy_str (photo_src (photo adjusted)) \<longrightarrow>
      photo (scaleSlider (Some 500) adjusted) =
        (photo adjusted)\<lparr>photo_scale := rangeValue scale_min scale_max scale_step (Some 500)\<rparr> \<and>
      photo (rotationSlider (Some 500) adjusted) =
        (photo adjusted)\<lparr>photo_rotation :=
           rangeValue rotation_min rotation_max rotation_step (Some 500)\<rparr> \<and>
      1 / 10 \<le> photo_scale (photo (scaleSlider (Some 500) adjusted)) \<and>
      photo_scale (photo (scaleSlider (Some 500) adjusted)) \<le> 4 \<and>
      0 < photo_scale (photo (scaleSlider (Some 500) adjusted)) \<and>
      - 180 \<le> photo_rotation (photo (rotationSlider (Some 500) adjusted)) \<and>
      photo_rotation (photo (rotationSlider (Some 500) adjusted)) \<le> 180"
    by (rule conjunct1)
  with a have C: "photo (rotationSlider (Some 500) adjusted) =
        (photo adjusted)\<lparr>photo_rotation :=
           rangeValue rotation_min rotation_max rotation_step (Some 500)\<rparr>"
    by blast
  have s2: "photo_rotation (photo (rotationSlider (Some 500) adjusted)) = 180"
    unfolding C v2 by simp
  from C8_direct_controls_in_range [where s = adjusted and given = None]
  have "truthy_str (photo_src (photo adjusted)) \<longrightarrow>
      photo (scaleSlider None adjusted) =
        (photo adjusted)\<lparr>photo_scale := rangeValue scale_min scale_max scale_step None\<rparr> \<and>
      photo (rotationSlider None adjusted) =
        (photo adjusted)\<lparr>photo_rotation := rangeValue rotation_min rotation_max rotation_step None\<rparr> \<and>
      1 / 10 \<le> photo_scale (photo (scaleSlider None adjusted)) \<and>
      photo_scale (photo (scaleSlider None adjusted)) \<le> 4 \<and>
      0 < photo_scale (photo (scaleSlider None adjusted)) \<and>
      - 180 \<le> photo_rotation (photo (rotationSlider None adjusted)) \<and>
      photo_rotation (photo (rotationSlider None adjusted)) \<le> 180"
    by (rule conjunct1)
  with a have D: "photo (scaleSlider None adjusted) =
        (photo adjusted)\<lparr>photo_scale := rangeValue scale_min scale_max scale_step None\<rparr>"
    by blast
  have s3: "photo_scale (photo (scaleSlider None adjusted)) = 21 / 10"
    unfolding D v3 by simp
  show ?thesis
    by (intro conjI a p s1 B s2 s3)
qed

section \<open>Canvas sizing\<close>

subsection \<open>Evaluating a rounding\<close>

lemma exponentFrom_eq:
  assumes "2 powi e \<le> x" and "x < 2 powi (e + 1)" and "- 1022 \<le> e" and "e \<le> int n - 1022"
  shows "exponentFrom n x = e"
  using assms
proof (induction n)
  case 0
  then show ?case by simp
next
  case (Suc n)
  show ?case
  proof (cases "e = int (Suc n) - 1022")
    case True
    with Suc.prems show ?thesis by simp
  next
    case False
    with Suc.prems have le: "e \<le> int n - 1022" by simp
    then have "e + 1 \<le> int (Suc n) - 1022" by simp
    then have "(2::real) powi (e + 1) \<le> 2 powi (int (Suc n) - 1022)"
      by (intro power_int_increasing) simp_all
    with Suc.prems have "\<not> 2 powi (int (Suc n) - 1022) \<le> x" by linarith
    with Suc.IH [OF Suc.prems(1,2,3) le] show ?thesis by simp
  qed
qed

lemma fl_eq:
  assumes "2 powi e \<le> \<bar>x\<bar>" and "\<bar>x\<bar> < 2 powi (e + 1)" and "- 1022 \<le> e" and "e \<le> 52"
  shows "fl x = of_int (rne (x * 2 ^ nat (52 - e))) / 2 ^ nat (52 - e)"
proof -
  have "exponent x = e"
    unfolding exponent_def using assms by (intro exponentFrom_eq) simp_all
  moreover have "(2::real) powi (e - 52) = 1 / 2 ^ nat (52 - e)"
    using assms(4) by (simp add: power_int_def field_simps)
  ultimately show ?thesis by (simp add: fl_def Let_def)
qed

lemma rne_examples: "rne (5 / 2) = 2" "rne (7 / 2) = 4" "rne (9 / 4) = 2" "rne (11 / 4) = 3"
  by (simp_all add: rne_def Let_def)

lemma js_div_1600_1200: "js_div 1600 1200 = 6004799503160661 / 4503599627370496"
  unfolding js_div_def by (subst fl_eq [where e = 0]) (simp_all add: rne_def Let_def)

lemma js_div_1080_ratio_1600_1200: "js_div 1080 (6004799503160661 / 4503599627370496) = 810"
  unfolding js_div_def by (subst fl_eq [where e = 9]) (simp_all add: rne_def Let_def)

lemma js_div_900_1800: "js_div 900 1800 = 1 / 2"
  unfolding js_div_def by (subst fl_eq [where e = "- 1"]) (simp_all add: rne_def Let_def)

lemma js_mul_1080_half: "js_mul 1080 (1 / 2) = 540"
  unfolding js_mul_def by (subst fl_eq [where e = 9]) (simp_all add: rne_def Let_def)

lemma js_div_1920_1080: "js_div 1920 1080 = 2001599834386887 / 1125899906842624"
  unfolding js_div_def by (subst fl_eq [where e = 0]) (simp_all add: rne_def Let_def)

lemma js_div_1080_ratio_1920_1080: "js_div 1080 (2001599834386887 / 1125899906842624) = 1215 / 2"
  unfolding js_div_def by (subst fl_eq [where e = 9]) (simp_all add: rne_def Let_def)

lemma js_div_9_7: "js_div 9 7 = 5790342378047781 / 4503599627370496"
  unfolding js_div_def by (subst fl_eq [where e = 0]) (simp_all add: rne_def Let_def)

lemma js_div_1080_ratio_9_7:
  "js_div 1080 (5790342378047781 / 4503599627370496) = 7388718138654719 / 8796093022208"
  unfolding js_div_def by (subst fl_eq [where e = 9]) (simp_all add: rne_def Let_def)

subsection \<open>The computed size\<close>

lemma canvasSize_known:
  "frame_width fr = Some w \<Longrightarrow> frame_height fr = Some h \<Longrightarrow> w \<noteq> 0 \<Longrightarrow> h \<noteq> 0 \<Longrightarrow>
   canvasSize fr =
     (if w > h then (1080, js_div 1080 (js_div w h)) else (js_mul 1080 (js_div w h), 1080))"
  by (simp add: canvasSize_def truthy_num_def Let_def)

lemma canvasSize_unknown:
  "frame_width fr = None \<or> frame_height fr = None \<Longrightarrow> canvasSize fr = (1080, 1080)"
  by (auto simp add: canvasSize_def truthy_num_def)

lemma canvasSize_1600_1200:
  "frame_width fr = Some 1600 \<Longrightarrow> frame_height fr = Some 1200 \<Longrightarrow> canvasSize fr = (1080, 810)"
  by (simp add: canvasSize_known [of fr 1600 1200] js_div_1600_1200 js_div_1080_ratio_1600_1200)

lemma canvasSize_900_1800:
  "frame_width fr = Some 900 \<Longrightarrow> frame_height fr = Some 1800 \<Longrightarrow> canvasSize fr = (540, 1080)"
  by (simp add: canvasSize_known [of fr 900 1800] js_div_900_1800 js_mul_1080_half)

lemma canvasSize_1920_1080:
  "frame_width fr = Some 1920 \<Longrightarrow> frame_height fr = Some 1080 \<Longrightarrow>
   canvasSize fr = (1080, 1215 / 2)"
  by (simp add: canvasSize_known [of fr 1920 1080] js_div_1920_1080 js_div_1080_ratio_1920_1080)

lemma canvasSize_9_7:
  "frame_width fr = Some 9 \<Longrightarrow> frame_height fr = Some 7 \<Longrightarrow>
   canvasSize fr = (1080, 7388718138654719 / 8796093022208)"
  by (simp add: canvasSize_known [of fr 9 7] js_div_9_7 js_div_1080_ratio_9_7)

lemma canvasDimension_floor:
  assumes "0 \<le> v" and "v < 2147483648"
  shows "canvasDimension dflt v = of_int \<lfloor>v\<rfloor>"
proof -
  have lo: "0 \<le> \<lfloor>v\<rfloor>"
    using assms(1) by simp
  have hi: "\<lfloor>v\<rfloor> < 2147483648"
    using assms(2) by (simp add: floor_less_iff)
  then have "\<lfloor>v\<rfloor> mod 2 ^ 32 = \<lfloor>v\<rfloor>"
    using lo by simp
  then show ?thesis
    using assms(1) hi by (simp add: canvasDimension_def toUnsignedLong_def Let_def)
qed

lemma canvasDims_sizeEffect:
  "canvas s = Some cv \<Longrightarrow>
   canvasDims (sizeEffect s) =
     Some (canvasDimension 300 (fst (canvasSize (frame s))),
           canvasDimension 150 (snd (canvasSize (frame s))))"
  by (simp add: canvasDims_def sizeEffect_def)

text \<open>
  C2 as stated fails: for a frame of 1920 by 1080 the value computed for the height is
  \<open>1080 / (1920 / 1080) = 607.5\<close>, and the canvas, whose height is a whole number,
  is 1080 by 607.
\<close>

theorem C2_counterexample:
  "frame_width (frame (framed 1920 1080)) = Some 1920 \<and>
   frame_height (frame (framed 1920 1080)) = Some 1080 \<and>
   canvasSize (frame (framed 1920 1080)) = (1080, 1080 / (1920 / 1080)) \<and>
   canvasDims (sizeEffect (framed 1920 1080)) = Some (1080, 607) \<and>
   canvasDims (sizeEffect (framed 1920 1080)) \<noteq> Some (1080, 1080 / (1920 / 1080))"
proof -
  have w: "frame_width (frame (framed 1920 1080)) = Some 1920"
    and h: "frame_height (frame (framed 1920 1080)) = Some 1080"
    and c: "canvas (framed 1920 1080) = Some canvas1000"
    by (simp_all add: framed_def initial_State_def)
  have s: "canvasSize (frame (framed 1920 1080)) = (1080, 1215 / 2)"
    using w h by (rule canvasSize_1920_1080)
  have d1: "canvasDimension 300 1080 = 1080" and d2: "canvasDimension 150 (1215 / 2) = 607"
    by (simp_all add: canvasDimension_floor)
  have d: "canvasDims (sizeEffect (framed 1920 1080)) = Some (1080, 607)"
    by (simp add: canvasDims_sizeEffect [OF c] s d1 d2)
  show ?thesis
    by (simp add: w h s d)
qed

text \<open>
  C2, amended. The sizing effect gives the canvas the computed width and height, each
  converted to an unsigned long, which for a value from 0 to below \<open>2^31\<close> is its
  integer part, and puts the canvas context back into its default state. For a frame
  whose width and height are known positive whole numbers the computed values are
  \<open>(1080, 1080 / (w / h))\<close> when \<open>w > h\<close> and \<open>(1080 * (w / h), 1080)\<close> otherwise,
  each quotient and product rounded to a double; when a dimension is unknown they are
  \<open>(1080, 1080)\<close>. A frame of 1600 by 1200 gives a canvas of 1080 by 810, one of 900
  by 1800 a canvas of 540 by 1080, and no frame dimensions a canvas of 1080 by 1080.
  The rounding can show: for a frame of 9 by 7 the exact height would be 840, the
  computed height is just below, and the canvas is 1080 by 839.
\<close>

theorem C2_canvas_sizing:
  "(canvas s = Some cv \<longrightarrow>
      canvas (sizeEffect s) =
        Some (cv\<lparr>cv_width := canvasDimension 300 (fst (canvasSize (frame s))),
                  cv_height := canvasDimension 150 (snd (canvasSize (frame s))),
                  cv_ctx := map_option resetContext (cv_ctx cv)\<rparr>)) \<and>
   (0 \<le> v \<and> v < 2147483648 \<longrightarrow> canvasDimension dflt v = of_int \<lfloor>v\<rfloor>) \<and>
   (frame_width fr = Some (real m) \<and> frame_height fr = Some (real n) \<and>
    0 < m \<and> 0 < n \<and> m < 2 ^ 32 \<and> n < 2 ^ 32 \<longrightarrow>
      canvasSize fr =
        (if real m > real n then (1080, js_div 1080 (js_div (real m) (real n)))
         else (js_mul 1080 (js_div (real m) (real n)), 1080))) \<and>
   (frame_width fr = None \<or> frame_height fr = None \<longrightarrow> canvasSize fr = (1080, 1080)) \<and>
   (canvas s = Some cv \<and> frame_width (frame s) = Some 1600 \<and> frame_height (frame s) = Some 1200 \<longrightarrow>
      canvasDims (sizeEffect s) = Some (1080, 810)) \<and>
   (canvas s = Some cv \<and> frame_width (frame s) = Some 900 \<and> frame_height (frame s) = Some 1800 \<longrightarrow>
      canvasDims (sizeEffect s) = Some (540, 1080)) \<and>
   (canvas s = Some cv \<and> (frame_width (frame s) = None \<or> frame_height (frame s) = None) \<longrightarrow>
      canvasDims (sizeEffect s) = Some (1080, 1080)) \<and>
   (canvas s = Some cv \<and> frame_width (frame s) = Some 9 \<and> frame_height (frame s) = Some 7 \<longrightarrow>
      canvasDims (sizeEffect s) = Some (1080, 839))"
proof (intro conjI impI)
  assume "canvas s = Some cv"
  then show "canvas (sizeEffect s) =
        Some (cv\<lparr>cv_width := canvasDimension 300 (fst (canvasSize (frame s))),
                  cv_height := canvasDimension 150 (snd (canvasSize (frame s))),
                  cv_ctx := map_option resetContext (cv_ctx cv)\<rparr>)"
    by (simp add: sizeEffect_def)
next
  assume "0 \<le> v \<and> v < 2147483648"
  then show "canvasDimension dflt v = of_int \<lfloor>v\<rfloor>"
    by (simp add: canvasDimension_floor)
next
  assume "frame_width fr = Some (real m) \<and> frame_height fr = Some (real n) \<and>
    0 < m \<and> 0 < n \<and> m < 2 ^ 32 \<and> n < 2 ^ 32"
  then show "canvasSize fr =
        (if real m > real n then (1080, js_div 1080 (js_div (real m) (real n)))
         else (js_mul 1080 (js_div (real m) (real n)), 1080))"
    using canvasSize_known [of fr "real m" "real n"] by simp
next
  assume "frame_width fr = None \<or> frame_height fr = None"
  then show "canvasSize fr = (1080, 1080)"
    by (rule canvasSize_unknown)
next
  assume a: "canvas s = Some cv \<and> frame_width (frame s) = Some 1600 \<and> frame_height (frame s) = Some 1200"
  then have "canvasSize (frame s) = (1080, 810)"
    by (simp add: canvasSize_1600_1200)
  with a show "canvasDims (sizeEffect s) = Some (1080, 810)"
    by (simp add: canvasDims_sizeEffect canvasDimension_floor)
next
  assume a: "canvas s = Some cv \<and> frame_width (frame s) = Some 900 \<and> frame_height (frame s) = Some 1800"
  then have "canvasSize (frame s) = (540, 1080)"
    by (simp add: canvasSize_900_1800)
  with a show "canvasDims (sizeEffect s) = Some (540, 1080)"
    by (simp add: canvasDims_sizeEffect canvasDimension_floor)
next
  assume a: "canvas s = Some cv \<and> (frame_width (frame s) = None \<or> frame_height (frame s) = None)"
  then have "canvasSize (frame s) = (1080, 1080)"
    by (simp add: canvasSize_unknown)
  with a show "canvasDims (sizeEffect s) = Some (1080, 1080)"
    by (simp add: canvasDims_sizeEffect canvasDimension_floor)
next
  assume a: "canvas s = Some cv \<and> frame_width (frame s) = Some 9 \<and> frame_height (frame s) = Some 7"
  then have "canvasSize (frame s) = (1080, 7388718138654719 / 8796093022208)"
    by (simp add: canvasSize_9_7)
  with a show "canvasDims (sizeEffect s) = Some (1080, 839)"
    by (simp add: canvasDims_sizeEffect canvasDimension_floor)
qed

theorem C2_witness:
  "canvas (framed 1600 1200) = Some canvas1000 \<and>
   frame_width (frame (framed 1600 1200)) = Some (real 1600) \<and>
   frame_height (frame (framed 1600 1200)) = Some (real 1200) \<and>
   (0::nat) < 1600 \<and> (0::nat) < 1200 \<and> (1600::nat) < 2 ^ 32 \<and> (1200::nat) < 2 ^ 32 \<and>
   canvasSize (frame (framed 1600 1200)) =
     (1080, js_div 1080 (js_div (real 1600) (real 1200))) \<and>
   canvasDims (sizeEffect (framed 1600 1200)) = Some (1080, 810)"
proof -
  note T = C2_canvas_sizing [where s = "framed 1600 1200" and cv = canvas1000
      and fr = "frame (framed 1600 1200)" and m = 1600 and n = 1200]
  have c: "canvas (framed 1600 1200) = Some canvas1000"
    by (simp add: framed_def initial_State_def)
  have w: "frame_width (frame (framed 1600 1200)) = Some (real 1600)"
    and h: "frame_height (frame (framed 1600 1200)) = Some (real 1200)"
    by (simp_all add: framed_def initial_State_def)
  have b: "(0::nat) < 1600" "(0::nat) < 1200" "(1600::nat) < 2 ^ 32" "(1200::nat) < 2 ^ 32"
    by simp_all
  from T have "frame_width (frame (framed 1600 1200)) = Some (real 1600) \<and>
      frame_height (frame (framed 1600 1200)) = Some (real 1200) \<and>
      (0::nat) < 1600 \<and> (0::nat) < 1200 \<and> (1600::nat) < 2 ^ 32 \<and> (1200::nat) < 2 ^ 32 \<longrightarrow>
      canvasSize (frame (framed 1600 1200)) =
        (if real 1600 > real 1200 then (1080, js_div 1080 (js_div (real 1600) (real 1200)))
         else (js_mul 1080 (js_div (real 1600) (real 1200)), 1080))"
    by (rule conjunct2 [THEN conjunct2, THEN conjunct1])
  with w h b have A: "canvasSize (frame (framed 1600 1200)) =
      (1080, js_div 1080 (js_div (real 1600) (real 1200)))"
    by simp
  have w': "frame_width (frame (framed 1600 1200)) = Some 1600"
    and h': "frame_height (frame (framed 1600 1200)) = Some 1200"
    by (simp_all add: framed_def initial_State_def)
  from T have "canvas (framed 1600 1200) = Some canvas1000 \<and>
      frame_width (frame (framed 1600 1200)) = Some 1600 \<and>
      frame_height (frame (framed 1600 1200)) = Some 1200 \<longrightarrow>
      canvasDims (sizeEffect (framed 1600 1200)) = Some (1080, 810)"
    by (rule conjunct2 [THEN conjunct2, THEN conjunct2, THEN conjunct2, THEN conjunct1])
  with c w' h' have B: "canvasDims (sizeEffect (framed 1600 1200)) = Some (1080, 810)"
    by blast
  show ?thesis
    by (intro conjI c w h b A B)
qed

section \<open>Dragging\<close>


lemma handlePointerMove_step:
  assumes "isDragging s" and "canvas s = Some cv"
  shows "handlePointerMove cx cy s =
     s\<lparr>photo := (photo s)\<lparr>photo_x := photo_x (photo s) +
                               (cx - pt_x (dragStart s)) * (cv_width cv / rect_width cv),
                            photo_y := photo_y (photo s) +
                               (cy - pt_y (dragStart s)) * (cv_width cv / rect_width cv)\<rparr>,
       dragStart := \<lparr>pt_x = cx, pt_y = cy\<rparr>\<rparr>"
  using assms by (simp add: handlePointerMove_def Let_def)











text \<open>
  C1. A pointer-down on the mounted canvas starts the drag and records the pointer
  position. During a drag, with a displayed width that is not zero, every move adds
  \<open>(clientX - dragStart.x) * sensitivity\<close> to the x offset and
  \<open>(clientY - dragStart.y) * sensitivity\<close> to the y offset, where \<open>sensitivity\<close> is the
  canvas pixel width divided by the displayed width, and records the pointer position
  as the new reference point. So with sensitivity 2 (1000 pixels shown 500 wide), down
  at (100,100), move to (110,115), move to (105,115) changes the offsets by (+20,+30)
  and then by (-10,0): each move is measured from the previous point.
\<close>

theorem C1_incremental_drag:
  "(canvas s = Some cv \<longrightarrow>
      handlePointerDown cx cy s = s\<lparr>isDragging := True, dragStart := \<lparr>pt_x = cx, pt_y = cy\<rparr>\<rparr>) \<and>
   (isDragging s \<and> canvas s = Some cv \<and> rect_width cv \<noteq> 0 \<longrightarrow>
      handlePointerMove cx cy s =
        s\<lparr>photo := (photo s)\<lparr>photo_x := photo_x (photo s) +
                                  (cx - pt_x (dragStart s)) * (cv_width cv / rect_width cv),
                               photo_y := photo_y (photo s) +
                                  (cy - pt_y (dragStart s)) * (cv_width cv / rect_width cv)\<rparr>,
          dragStart := \<lparr>pt_x = cx, pt_y = cy\<rparr>\<rparr>) \<and>
   (canvas s = Some cv \<and> cv_width cv = 1000 \<and> rect_width cv = 500 \<longrightarrow>
      photo_x (photo (runEvents [MouseDown 100 100, MouseMove 110 115] s)) = photo_x (photo s) + 20 \<and>
      photo_y (photo (runEvents [MouseDown 100 100, MouseMove 110 115] s)) = photo_y (photo s) + 30 \<and>
      photo_x (photo (runEvents [MouseDown 100 100, MouseMove 110 115, MouseMove 105 115] s)) =
        photo_x (photo (runEvents [MouseDown 100 100, MouseMove 110 115] s)) + (- 10) \<and>
      photo_y (photo (runEvents [MouseDown 100 100, MouseMove 110 115, MouseMove 105 115] s)) =
        photo_y (photo (runEvents [MouseDown 100 100, MouseMove 110 115] s)) + 0)"
proof (intro conjI impI)
  assume "canvas s = Some cv"
  then show "handlePointerDown cx cy s = s\<lparr>isDragging := True, dragStart := \<lparr>pt_x = cx, pt_y = cy\<rparr>\<rparr>"
    by (simp add: handlePointerDown_def)
next
  assume "isDragging s \<and> canvas s = Some cv \<and> rect_width cv \<noteq> 0"
  then show "handlePointerMove cx cy s =
        s\<lparr>photo := (photo s)\<lparr>photo_x := photo_x (photo s) +
                                  (cx - pt_x (dragStart s)) * (cv_width cv / rect_width cv),
                               photo_y := photo_y (photo s) +
                                  (cy - pt_y (dragStart s)) * (cv_width cv / rect_width cv)\<rparr>,
          dragStart := \<lparr>pt_x = cx, pt_y = cy\<rparr>\<rparr>"
    by (simp add: handlePointerMove_step)
next
  assume a: "canvas s = Some cv \<and> cv_width cv = 1000 \<and> rect_width cv = 500"
  then show "photo_x (photo (runEvents [MouseDown 100 100, MouseMove 110 115] s)) = photo_x (photo s) + 20"
    by (simp add: handlePointerDown_def handlePointerMove_def Let_def)
  from a show "photo_y (photo (runEvents [MouseDown 100 100, MouseMove 110 115] s)) = photo_y (photo s) + 30"
    by (simp add: handlePointerDown_def handlePointerMove_def Let_def)
  from a show "photo_x (photo (runEvents [MouseDown 100 100, MouseMove 110 115, MouseMove 105 115] s)) =
        photo_x (photo (runEvents [MouseDown 100 100, MouseMove 110 115] s)) + (- 10)"
    by (simp add: handlePointerDown_def handlePointerMove_def Let_def)
  from a show "photo_y (photo (runEvents [MouseDown 100 100, MouseMove 110 115, MouseMove 105 115] s)) =
        photo_y (photo (runEvents [MouseDown 100 100, MouseMove 110 115] s)) + 0"
    by (simp add: handlePointerDown_def handlePointerMove_def Let_def)
qed

theorem C1_witness:
  "isDragging (handlePointerDown 100 100 adjusted) \<and>
   canvas (handlePointerDown 100 100 adjusted) = Some canvas1000 \<and>
   rect_width canvas1000 \<noteq> 0 \<and>
   photo_x (photo (handlePointerMove 110 115 (handlePointerDown 100 100 adjusted))) = 40 + 20 \<and>
   photo_y (photo (handlePointerMove 110 115 (handlePointerDown 100 100 adjusted))) = - 25 + 30"
proof -
  let ?s = "handlePointerDown 100 100 adjusted"
  have d: "isDragging ?s" and c: "canvas ?s = Some canvas1000" and r: "rect_width canvas1000 \<noteq> 0"
    and st: "dragStart ?s = \<lparr>pt_x = 100, pt_y = 100\<rparr>"
    and ph: "photo_x (photo ?s) = 40" "photo_y (photo ?s) = - 25"
    by (simp_all add: handlePointerDown_def adjusted_def initial_State_def canvas1000_def)
  from C1_incremental_drag [of ?s canvas1000 110 115]
  have "isDragging ?s \<and> canvas ?s = Some canvas1000 \<and> rect_width canvas1000 \<noteq> 0 \<longrightarrow>
      handlePointerMove 110 115 ?s =
        ?s\<lparr>photo := (photo ?s)\<lparr>photo_x := photo_x (photo ?s) +
                                  (110 - pt_x (dragStart ?s)) * (cv_width canvas1000 / rect_width canvas1000),
                               photo_y := photo_y (photo ?s) +
                                  (115 - pt_y (dragStart ?s)) * (cv_width canvas1000 / rect_width canvas1000)\<rparr>,
          dragStart := \<lparr>pt_x = 110, pt_y = 115\<rparr>\<rparr>"
    by (rule conjunct2 [THEN conjunct1])
  with d c r have m: "handlePointerMove 110 115 ?s =
        ?s\<lparr>photo := (photo ?s)\<lparr>photo_x := photo_x (photo ?s) +
                                  (110 - pt_x (dragStart ?s)) * (cv_width canvas1000 / rect_width canvas1000),
                               photo_y := photo_y (photo ?s) +
                                  (115 - pt_y (dragStart ?s)) * (cv_width canvas1000 / rect_width canvas1000)\<rparr>,
          dragStart := \<lparr>pt_x = 110, pt_y = 115\<rparr>\<rparr>"
    by blast
  have x: "photo_x (photo (handlePointerMove 110 115 ?s)) = 40 + 20"
    unfolding m by (simp add: st ph canvas1000_def)
  have y: "photo_y (photo (handlePointerMove 110 115 ?s)) = - 25 + 30"
    unfolding m by (simp add: st ph canvas1000_def)
  from d c r x y show ?thesis by blast
qed




section \<open>Compositing\<close>

lemma drawPhotoLayer_eq:
  "drawPhotoLayer ctx img p cw ch =
     ctx\<lparr>painted := painted ctx @
       [Drawn img
          (mat_mul (mat_mul (mat_mul (ctm ctx)
             (mat_translate (cw / 2 + photo_x p) (ch / 2 + photo_y p)))
             (mat_rotate (photo_rotation p * pi / 180)))
             (mat_scale (photo_scale p) (photo_scale p)))
          (- img_width img / 2) (- img_height img / 2) (img_width img) (img_height img)]\<rparr>"
  by (simp add: drawPhotoLayer_def Let_def ctx_save_def ctx_translate_def ctx_rotate_def
      ctx_scale_def ctx_drawImage3_def ctx_restore_def)

lemma mat_apply_mul: "mat_apply (mat_mul M N) q = mat_apply M (mat_apply N q)"
  by (simp add: mat_apply_def mat_mul_def algebra_simps)

lemma mat_apply_translate: "mat_apply (mat_translate tx ty) (u, v) = (tx + u, ty + v)"
  by (simp add: mat_apply_def mat_translate_def)

lemma mat_apply_rotate:
  "mat_apply (mat_rotate t) (u, v) = (cos t * u - sin t * v, sin t * u + cos t * v)"
  by (simp add: mat_apply_def mat_rotate_def)

lemma mat_apply_scale: "mat_apply (mat_scale sx sy) (u, v) = (sx * u, sy * v)"
  by (simp add: mat_apply_def mat_scale_def)

lemma mat_apply_id: "mat_apply mat_id q = q"
  by (simp add: mat_apply_def mat_id_def)

lemma mat_apply_trs:
  "mat_apply (mat_mul (mat_mul (mat_mul M (mat_translate tx ty)) (mat_rotate t)) (mat_scale k k)) (u, v) =
   mat_apply M (tx + k * (cos t * u - sin t * v), ty + k * (sin t * u + cos t * v))"
  by (simp add: mat_apply_mul mat_apply_translate mat_apply_rotate mat_apply_scale algebra_simps)

text \<open>
  C3. The photo layer is drawn under the current matrix multiplied by a translation to
  \<open>(cw/2 + offsetX, ch/2 + offsetY)\<close>, then a rotation by \<open>rotation * pi / 180\<close>
  radians, then a uniform scaling by \<open>scale\<close>, in that order, with the bitmap placed
  at \<open>(-width/2, -height/2)\<close>; afterwards the context is as it was, but for what has
  been painted. From the identity matrix, a point \<open>(u, v)\<close> of the bitmap's own
  coordinates is therefore scaled, rotated about the translated centre and moved
  there, and the bitmap's centre lands on the translated centre.
\<close>

theorem C3_photo_layer_transform:
  "drawPhotoLayer ctx img p cw ch =
     ctx\<lparr>painted := painted ctx @
       [Drawn img
          (mat_mul (mat_mul (mat_mul (ctm ctx)
             (mat_translate (cw / 2 + photo_x p) (ch / 2 + photo_y p)))
             (mat_rotate (photo_rotation p * pi / 180)))
             (mat_scale (photo_scale p) (photo_scale p)))
          (- img_width img / 2) (- img_height img / 2) (img_width img) (img_height img)]\<rparr> \<and>
   mat_apply
     (mat_mul (mat_mul (mat_mul mat_id
        (mat_translate (cw / 2 + photo_x p) (ch / 2 + photo_y p)))
        (mat_rotate (photo_rotation p * pi / 180)))
        (mat_scale (photo_scale p) (photo_scale p))) (u, v) =
     (cw / 2 + photo_x p +
        photo_scale p * (cos (photo_rotation p * pi / 180) * u - sin (photo_rotation p * pi / 180) * v),
      ch / 2 + photo_y p +
        photo_scale p * (sin (photo_rotation p * pi / 180) * u + cos (photo_rotation p * pi / 180) * v)) \<and>
   paint_centre (last (painted (drawPhotoLayer ctx img p cw ch))) =
     mat_apply (ctm ctx) (cw / 2 + photo_x p, ch / 2 + photo_y p)"
proof (intro conjI)
  show "drawPhotoLayer ctx img p cw ch =
     ctx\<lparr>painted := painted ctx @
       [Drawn img
          (mat_mul (mat_mul (mat_mul (ctm ctx)
             (mat_translate (cw / 2 + photo_x p) (ch / 2 + photo_y p)))
             (mat_rotate (photo_rotation p * pi / 180)))
             (mat_scale (photo_scale p) (photo_scale p)))
          (- img_width img / 2) (- img_height img / 2) (img_width img) (img_height img)]\<rparr>"
    by (rule drawPhotoLayer_eq)
  show "mat_apply
     (mat_mul (mat_mul (mat_mul mat_id
        (mat_translate (cw / 2 + photo_x p) (ch / 2 + photo_y p)))
        (mat_rotate (photo_rotation p * pi / 180)))
        (mat_scale (photo_scale p) (photo_scale p))) (u, v) =
     (cw / 2 + photo_x p +
        photo_scale p * (cos (photo_rotation p * pi / 180) * u - sin (photo_rotation p * pi / 180) * v),
      ch / 2 + photo_y p +
        photo_scale p * (sin (photo_rotation p * pi / 180) * u + cos (photo_rotation p * pi / 180) * v))"
    by (simp only: mat_apply_trs mat_apply_id)
  show "paint_centre (last (painted (drawPhotoLayer ctx img p cw ch))) =
     mat_apply (ctm ctx) (cw / 2 + photo_x p, ch / 2 + photo_y p)"
    by (simp add: drawPhotoLayer_eq paint_centre_def mat_apply_trs)
qed


lemma surface_draw:
  assumes "canvas s = Some cv" and "cv_ctx cv = Some ctx"
  shows "surface (draw s) =
     painted ctx @
     [Cleared (ctm ctx) 0 0 (cv_width cv) (cv_height cv),
      Filled ''#ffffff'' (ctm ctx) 0 0 (cv_width cv) (cv_height cv)] @
     (case photoImg s of
        None \<Rightarrow> []
      | Some img \<Rightarrow>
          [Drawn img
             (mat_mul (mat_mul (mat_mul (ctm ctx)
                (mat_translate (cv_width cv / 2 + photo_x (photo s))
                   (cv_height cv / 2 + photo_y (photo s))))
                (mat_rotate (photo_rotation (photo s) * pi / 180)))
                (mat_scale (photo_scale (photo s)) (photo_scale (photo s))))
             (- img_width img / 2) (- img_height img / 2) (img_width img) (img_height img)]) @
     (case frameImg s of
        None \<Rightarrow> []
      | Some fimg \<Rightarrow> [Drawn fimg (ctm ctx) 0 0 (cv_width cv) (cv_height cv)])"
  using assms
  by (simp add: surface_def draw_def Let_def drawPhotoLayer_eq ctx_clearRect_def
      ctx_fillRect_def ctx_drawImage5_def split: option.splits)

lemma canvas_draw:
  assumes "canvas s = Some cv" and "cv_ctx cv = Some ctx"
  shows "map_option cv_width (canvas (draw s)) = Some (cv_width cv) \<and>
         map_option cv_height (canvas (draw s)) = Some (cv_height cv)"
  using assms by (simp add: draw_def Let_def)

text \<open>
  C7. A render on a mounted canvas whose context has the identity matrix first clears
  and then fills white (\<^verbatim>\<open>#ffffff\<close>) the rectangle \<open>(0, 0, width, height)\<close> of the
  canvas, then draws the photo layer when a photo bitmap is present, and last draws the
  frame bitmap, when present, into exactly \<open>(0, 0, width, height)\<close> whatever the
  bitmap's own size. With no photo and no frame the render paints the white rectangle
  only. The size of the canvas is unchanged.
\<close>

theorem C7_render_layers:
  assumes "canvas s = Some cv" and "cv_ctx cv = Some ctx" and "ctm ctx = mat_id"
  shows "surface (draw s) =
     painted ctx @
     [Cleared mat_id 0 0 (cv_width cv) (cv_height cv),
      Filled ''#ffffff'' mat_id 0 0 (cv_width cv) (cv_height cv)] @
     (case photoImg s of
        None \<Rightarrow> []
      | Some img \<Rightarrow>
          [Drawn img
             (mat_mul (mat_mul (mat_mul mat_id
                (mat_translate (cv_width cv / 2 + photo_x (photo s))
                   (cv_height cv / 2 + photo_y (photo s))))
                (mat_rotate (photo_rotation (photo s) * pi / 180)))
                (mat_scale (photo_scale (photo s)) (photo_scale (photo s))))
             (- img_width img / 2) (- img_height img / 2) (img_width img) (img_height img)]) @
     (case frameImg s of
        None \<Rightarrow> []
      | Some fimg \<Rightarrow> [Drawn fimg mat_id 0 0 (cv_width cv) (cv_height cv)]) \<and>
     (frameImg s = Some fimg \<longrightarrow>
        last (surface (draw s)) = Drawn fimg mat_id 0 0 (cv_width cv) (cv_height cv)) \<and>
     (photoImg s = None \<and> frameImg s = None \<longrightarrow>
        surface (draw s) =
          painted ctx @
          [Cleared mat_id 0 0 (cv_width cv) (cv_height cv),
           Filled ''#ffffff'' mat_id 0 0 (cv_width cv) (cv_height cv)]) \<and>
     map_option cv_width (canvas (draw s)) = Some (cv_width cv) \<and>
     map_option cv_height (canvas (draw s)) = Some (cv_height cv)"
proof -
  note eq = surface_draw [OF assms(1,2), unfolded assms(3)]
  have 1: "frameImg s = Some fimg \<longrightarrow>
        last (surface (draw s)) = Drawn fimg mat_id 0 0 (cv_width cv) (cv_height cv)"
    by (simp add: eq)
  have 2: "photoImg s = None \<and> frameImg s = None \<longrightarrow>
        surface (draw s) =
          painted ctx @
          [Cleared mat_id 0 0 (cv_width cv) (cv_height cv),
           Filled ''#ffffff'' mat_id 0 0 (cv_width cv) (cv_height cv)]"
    by (simp add: eq)
  note 3 = canvas_draw [OF assms(1,2)]
  show ?thesis
    by (intro conjI eq 1 2 3 [THEN conjunct1] 3 [THEN conjunct2])
qed

theorem C7_witness:
  "canvas composed = Some canvas1000 \<and>
   cv_ctx canvas1000 = Some \<lparr>ctm = mat_id, fillStyle = ''#000000'', saved = [], painted = []\<rparr> \<and>
   ctm \<lparr>ctm = mat_id, fillStyle = ''#000000'', saved = [], painted = []\<rparr> = mat_id \<and>
   frameImg composed = Some \<lparr>img_src = ''data:f'', img_width = 1600, img_height = 1200\<rparr> \<and>
   hd (surface (draw composed)) = Cleared mat_id 0 0 1000 1000 \<and>
   hd (tl (surface (draw composed))) = Filled ''#ffffff'' mat_id 0 0 1000 1000 \<and>
   last (surface (draw composed)) =
     Drawn \<lparr>img_src = ''data:f'', img_width = 1600, img_height = 1200\<rparr> mat_id 0 0 1000 1000"
proof -
  let ?ctx = "\<lparr>ctm = mat_id, fillStyle = ''#000000'', saved = [], painted = []\<rparr>"
  let ?f = "\<lparr>img_src = ''data:f'', img_width = 1600, img_height = 1200\<rparr>"
  have c: "canvas composed = Some canvas1000"
    by (simp add: composed_def adjusted_def initial_State_def)
  have x: "cv_ctx canvas1000 = Some ?ctx" and wh: "cv_width canvas1000 = 1000" "cv_height canvas1000 = 1000"
    by (simp_all add: canvas1000_def)
  have m: "ctm ?ctx = mat_id" and e: "painted ?ctx = []"
    by simp_all
  have f: "frameImg composed = Some ?f"
    by (simp add: composed_def)
  note T = C7_render_layers [OF c x m, where fimg = ?f, unfolded wh e]
  from T have s: "surface (draw composed) =
     [] @ [Cleared mat_id 0 0 1000 1000, Filled ''#ffffff'' mat_id 0 0 1000 1000] @
     (case photoImg composed of
        None \<Rightarrow> []
      | Some img \<Rightarrow>
          [Drawn img
             (mat_mul (mat_mul (mat_mul mat_id
                (mat_translate (1000 / 2 + photo_x (photo composed))
                   (1000 / 2 + photo_y (photo composed))))
                (mat_rotate (photo_rotation (photo composed) * pi / 180)))
                (mat_scale (photo_scale (photo composed)) (photo_scale (photo composed))))
             (- img_width img / 2) (- img_height img / 2) (img_width img) (img_height img)]) @
     (case frameImg composed of
        None \<Rightarrow> []
      | Some fimg \<Rightarrow> [Drawn fimg mat_id 0 0 1000 1000])"
    by (rule conjunct1)
  have h1: "hd (surface (draw composed)) = Cleared mat_id 0 0 1000 1000"
    by (simp add: s)
  have h2: "hd (tl (surface (draw composed))) = Filled ''#ffffff'' mat_id 0 0 1000 1000"
    by (simp add: s)
  from T have "frameImg composed = Some ?f \<longrightarrow>
      last (surface (draw composed)) = Drawn ?f mat_id 0 0 1000 1000"
    by (rule conjunct2 [THEN conjunct1])
  with f have l: "last (surface (draw composed)) = Drawn ?f mat_id 0 0 1000 1000"
    by (rule rev_mp)
  show ?thesis
    by (intro conjI c x m f h1 h2 l)
qed

section \<open>Failed loads\<close>





















lemma loadEffects_failed:
  "(truthy_str (frame_src (frame s)) \<longrightarrow> loadFrameEffect LoadError s = s) \<and>
   (truthy_str (photo_src (photo s)) \<longrightarrow> loadPhotoEffect LoadError s = s)"
  by (simp add: loadFrameEffect_def loadPhotoEffect_def)





section \<open>Caption service\<close>

lemma cleanBase64_examples:
  "cleanBase64 ''data:image/png;base64,QUJD'' = ''QUJD''" "cleanBase64 ''QUJD'' = ''QUJD''"
  by (simp_all add: cleanBase64_def)

lemma trim_example: "trim ''  Hello world  '' = ''Hello world''"
  by (simp add: trim_def isWhiteSpace_def)

lemma wordCount_fallbacks:
  "wordCount ''Capture the moment!'' = 3" "wordCount ''Memories forever'' = 2"
  "wordCount ''Beautiful Day'' = 2"
  by (simp_all add: wordCount_def)


lemma requestCaption_cases:
  "requestCaption generateContent base64Image =
     (case generateContent (cleanBase64 base64Image) of
        Inl err \<Rightarrow> Inl err
      | Inr response \<Rightarrow>
          Inr (if resp_text response = None \<or> trim (the (resp_text response)) = []
               then ''Memories forever'' else trim (the (resp_text response))))"
  by (simp add: requestCaption_def split: sum.splits option.splits)

text \<open>
  C9. Whatever the photo bytes, the key and the behaviour of the request, the caption
  operation returns a text and never an error. With no key it returns
  \<open>Capture the moment!\<close>; when the request throws it returns \<open>Beautiful Day\<close>; when the
  response has no text, or only white space, it returns \<open>Memories forever\<close>; otherwise
  it returns the trimmed text of the response. Each of the three fixed texts has at
  most 6 words.
\<close>

theorem C9_caption_never_fails:
  "(\<exists>caption. generateCaptionForPhoto env generateContent base64Image = Inr caption) \<and>
   (apiKey env = [] \<longrightarrow>
      generateCaptionForPhoto env generateContent base64Image = Inr ''Capture the moment!'') \<and>
   (apiKey env \<noteq> [] \<and> generateContent (cleanBase64 base64Image) = Inl err \<longrightarrow>
      generateCaptionForPhoto env generateContent base64Image = Inr ''Beautiful Day'') \<and>
   (apiKey env \<noteq> [] \<and> generateContent (cleanBase64 base64Image) = Inr response \<and>
    (resp_text response = None \<or> (\<exists>u. resp_text response = Some u \<and> trim u = [])) \<longrightarrow>
      generateCaptionForPhoto env generateContent base64Image = Inr ''Memories forever'') \<and>
   (apiKey env \<noteq> [] \<and> generateContent (cleanBase64 base64Image) = Inr response \<and>
    resp_text response = Some t \<and> trim t \<noteq> [] \<longrightarrow>
      generateCaptionForPhoto env generateContent base64Image = Inr (trim t)) \<and>
   wordCount ''Capture the moment!'' \<le> 6 \<and>
   wordCount ''Beautiful Day'' \<le> 6 \<and>
   wordCount ''Memories forever'' \<le> 6"
proof (intro conjI impI)
  show "\<exists>caption. generateCaptionForPhoto env generateContent base64Image = Inr caption"
    by (simp add: generateCaptionForPhoto_def split: sum.splits)
next
  assume "apiKey env = []"
  then show "generateCaptionForPhoto env generateContent base64Image = Inr ''Capture the moment!''"
    by (simp add: generateCaptionForPhoto_def)
next
  assume "apiKey env \<noteq> [] \<and> generateContent (cleanBase64 base64Image) = Inl err"
  then show "generateCaptionForPhoto env generateContent base64Image = Inr ''Beautiful Day''"
    by (simp add: generateCaptionForPhoto_def requestCaption_cases)
next
  assume "apiKey env \<noteq> [] \<and> generateContent (cleanBase64 base64Image) = Inr response \<and>
    (resp_text response = None \<or> (\<exists>u. resp_text response = Some u \<and> trim u = []))"
  then show "generateCaptionForPhoto env generateContent base64Image = Inr ''Memories forever''"
    by (auto simp add: generateCaptionForPhoto_def requestCaption_cases)
next
  assume "apiKey env \<noteq> [] \<and> generateContent (cleanBase64 base64Image) = Inr response \<and>
    resp_text response = Some t \<and> trim t \<noteq> []"
  then show "generateCaptionForPhoto env generateContent base64Image = Inr (trim t)"
    by (simp add: generateCaptionForPhoto_def requestCaption_cases)
next
  show "wordCount ''Capture the moment!'' \<le> 6" "wordCount ''Beautiful Day'' \<le> 6"
    "wordCount ''Memories forever'' \<le> 6"
    by (simp_all add: wordCount_fallbacks)
qed

theorem C9_witness:
  "apiKey (Some ''key'') \<noteq> [] \<and>
   (\<lambda>d. Inl ApiError :: JsError + Response) (cleanBase64 ''data:image/png;base64,QUJD'') = Inl ApiError \<and>
   generateCaptionForPhoto (Some ''key'') (\<lambda>d. Inl ApiError) ''data:image/png;base64,QUJD'' =
     Inr ''Beautiful Day'' \<and>
   apiKey None = [] \<and>
   generateCaptionForPhoto None (\<lambda>d. Inl ApiError) ''data:image/png;base64,QUJD'' =
     Inr ''Capture the moment!''"
proof -
  let ?g = "\<lambda>d::string. Inl ApiError :: JsError + Response"
  let ?img = "''data:image/png;base64,QUJD''"
  have k: "apiKey (Some ''key'') \<noteq> []" and n: "apiKey None = []"
    by (simp_all add: apiKey_def)
  have e: "?g (cleanBase64 ?img) = Inl ApiError"
    by simp
  from C9_caption_never_fails [where env = "Some ''key''" and generateContent = ?g
      and base64Image = ?img and err = ApiError]
  have "apiKey (Some ''key'') \<noteq> [] \<and> ?g (cleanBase64 ?img) = Inl ApiError \<longrightarrow>
      generateCaptionForPhoto (Some ''key'') ?g ?img = Inr ''Beautiful Day''"
    by (rule conjunct2 [THEN conjunct2, THEN conjunct1])
  with k e have 1: "generateCaptionForPhoto (Some ''key'') ?g ?img = Inr ''Beautiful Day''"
    by blast
  from C9_caption_never_fails [where env = None and generateContent = ?g and base64Image = ?img]
  have "apiKey None = [] \<longrightarrow> generateCaptionForPhoto None ?g ?img = Inr ''Capture the moment!''"
    by (rule conjunct2 [THEN conjunct1])
  with n have 2: "generateCaptionForPhoto None ?g ?img = Inr ''Capture the moment!''"
    by (rule rev_mp)
  show ?thesis
    by (intro conjI k e 1 n 2)
qed

end
